theory Spec2Isabelle
  imports Complex_Main "HOL-Library.AList" "HOL-Library.Product_Lexorder" "HOL-Library.Option_ord"
begin

section \<open>Numbers: Python floats and Decimals by value\<close>

text \<open>
  The engine computes with \<^verbatim>\<open>decimal.Decimal\<close> under the default context (28 significant
  digits, ROUND_HALF_EVEN) and, for the duration only, with binary64 floats. Both are
  modelled by their exact rational value; every arithmetic operation rounds the exact result
  to the precision of its number system, as the Python operators do. Exponent limits
  (overflow, subnormal numbers), NaN and infinities are outside the model.
\<close>

definition round_half_even :: "rat \<Rightarrow> int" where
  "round_half_even q =
     (let f = \<lfloor>q\<rfloor>; r = q - of_int f
      in if r < 1 / 2 then f else if 1 / 2 < r then f + 1 else if even f then f else f + 1)"

text \<open>Number of digits of \<open>n\<close> in base \<open>b\<close>.\<close>

function digits :: "int \<Rightarrow> int \<Rightarrow> nat" where
  "digits b n = (if n \<le> 0 \<or> b \<le> 1 then 0 else Suc (digits b (n div b)))"
  by pat_completeness auto
termination
  by (relation "measure (\<lambda>(b, n). nat n)") (auto intro!: int_div_less_self)

declare digits.simps [simp del]

text \<open>\<open>ilog b q\<close> is the integer \<open>e\<close> with \<open>b^e \<le> q < b^(e+1)\<close>, for \<open>q > 0\<close>.\<close>

definition ilog :: "int \<Rightarrow> rat \<Rightarrow> int" where
  "ilog b q = (if 1 \<le> q then int (digits b \<lfloor>q\<rfloor>) - 1
               else - int (digits b (\<lceil>1 / q\<rceil> - 1)))"

text \<open>Rounding to \<open>p\<close> significant digits in base \<open>b\<close>, ties to even.\<close>

definition round_sig :: "int \<Rightarrow> nat \<Rightarrow> rat \<Rightarrow> rat" where
  "round_sig b p q =
     (if q = 0 then 0
      else let ulp = of_int b powi (ilog b \<bar>q\<bar> - int p + 1)
           in of_int (round_half_even (q / ulp)) * ulp)"

text \<open>binary64: 53 significant bits.\<close>

definition fl :: "rat \<Rightarrow> rat" where
  "fl = round_sig 2 53"

text \<open>The default decimal context: 28 significant decimal digits.\<close>

definition ctx :: "rat \<Rightarrow> rat" where
  "ctx = round_sig 10 28"

datatype error =
  TypeError | DivisionByZero | InvalidOperation | IllegalMonthError
  | IntegrityError | CreditsExhausted | NotFound

definition dec_add :: "rat \<Rightarrow> rat \<Rightarrow> rat" where
  "dec_add a b = ctx (a + b)"

definition dec_sub :: "rat \<Rightarrow> rat \<Rightarrow> rat" where
  "dec_sub a b = ctx (a - b)"

definition dec_mul :: "rat \<Rightarrow> rat \<Rightarrow> rat" where
  "dec_mul a b = ctx (a * b)"

definition dec_div :: "rat \<Rightarrow> rat \<Rightarrow> error + rat" where
  "dec_div a b =
     (if b = 0 then Inl (if a = 0 then InvalidOperation else DivisionByZero)
      else Inr (ctx (a / b)))"

text \<open>
  A numeric attribute that reaches the arithmetic without passing through
  \<^verbatim>\<open>Decimal(str(...))\<close> is a float (the field defaults are written \<^verbatim>\<open>0.0\<close>) or a Decimal
  (a value loaded from the database or validated by the serializer). Mixing a Decimal with a
  float in \<^verbatim>\<open>+\<close> or \<^verbatim>\<open>/\<close> raises TypeError.
\<close>

datatype number = PyFloat rat | PyDecimal rat

fun num_value :: "number \<Rightarrow> rat" where
  "num_value (PyFloat x) = x"
| "num_value (PyDecimal x) = x"

fun num_div :: "number \<Rightarrow> rat \<Rightarrow> error + rat" where
  "num_div (PyFloat x) b = Inl TypeError"
| "num_div (PyDecimal a) b = dec_div a b"

section \<open>Dates and times\<close>

text \<open>
  A date is (year, month, day) and a time is (hour, minute, second, microsecond); both are
  compared lexicographically, as Python compares them.
\<close>

type_synonym date = "nat \<times> nat \<times> nat"
type_synonym time = "nat \<times> nat \<times> nat \<times> nat"

definition year :: "date \<Rightarrow> nat" where "year d = fst d"
definition month :: "date \<Rightarrow> nat" where "month d = fst (snd d)"
definition day :: "date \<Rightarrow> nat" where "day d = snd (snd d)"

definition isleap :: "nat \<Rightarrow> bool" where
  "isleap y = (y mod 4 = 0 \<and> (y mod 100 \<noteq> 0 \<or> y mod 400 = 0))"

definition mdays :: "nat list" where
  "mdays = [0, 31, 28, 31, 30, 31, 30, 31, 31, 30, 31, 30, 31]"

text \<open>The second component of \<^verbatim>\<open>calendar.monthrange(year, month)\<close>.\<close>

definition monthrange :: "nat \<Rightarrow> nat \<Rightarrow> error + nat" where
  "monthrange y m =
     (if \<not> (1 \<le> m \<and> m \<le> 12) then Inl IllegalMonthError
      else Inr (mdays ! m + (if m = 2 \<and> isleap y then 1 else 0)))"

definition valid_date :: "date \<Rightarrow> bool" where
  "valid_date d =
     (1 \<le> year d \<and> 1 \<le> month d \<and> month d \<le> 12 \<and> 1 \<le> day d \<and>
      (case monthrange (year d) (month d) of Inl e \<Rightarrow> False | Inr n \<Rightarrow> day d \<le> n))"

definition valid_time :: "time \<Rightarrow> bool" where
  "valid_time t =
     (case t of (h, m, s, us) \<Rightarrow> h < 24 \<and> m < 60 \<and> s < 60 \<and> us < 1000000)"

text \<open>Microseconds since midnight.\<close>

definition time_us :: "time \<Rightarrow> int" where
  "time_us t = (case t of (h, m, s, us) \<Rightarrow>
     ((int h * 60 + int m) * 60 + int s) * 1000000 + int us)"

text \<open>\<^verbatim>\<open>timedelta.total_seconds()\<close>: the microsecond count divided by \<open>10^6\<close>, as a float.\<close>

definition total_seconds :: "int \<Rightarrow> rat" where
  "total_seconds us = fl (of_int us / 10 ^ 6)"

text \<open>
  Lines 122-130 of \<^verbatim>\<open>WorkSession.save\<close>: both times are placed on the same dummy day,
  the end is moved to the next day when it is earlier than the start, and the difference is
  converted to hours by a float division. \<^verbatim>\<open>Decimal(float)\<close> is exact.
\<close>

definition calc_duration :: "time \<Rightarrow> time \<Rightarrow> rat" where
  "calc_duration st en =
     (let start = time_us st;
          end0 = time_us en;
          end1 = (if en < st then end0 + 86400 * 1000000 else end0);
          diff = end1 - start
      in fl (total_seconds diff / 3600))"

section \<open>Data model\<close>

record country =
  tax_rate_percentage :: number

record profile =
  country :: "country option"
  transport_type :: string
  courier_type :: string
  fee_percent :: number
  credits :: int
  rent_frequency :: string
  rent_amount :: number
  is_pro :: bool

text \<open>
  The amounts that \<^verbatim>\<open>save\<close> converts with \<^verbatim>\<open>Decimal(str(...))\<close> are held by the value of
  that conversion. \<^verbatim>\<open>vehicle_rent\<close> is not converted and keeps its Python type.
\<close>

record session =
  pk :: "nat option"
  user :: nat
  date :: date
  start_time :: "time option"
  end_time :: "time option"
  duration_hours :: "rat option"
  total_orders :: int
  total_distance_km :: rat
  gross_earnings :: rat
  tips :: rat
  fuel_cost :: rat
  vehicle_rent :: number
  depreciation_cost :: rat
  other_expenses :: rat
  application_fee :: rat
  total_earnings :: rat
  platform_fees :: rat
  tax_estimate :: rat
  net_profit :: rat
  profit_per_hour :: rat
  profit_per_km :: rat
  profit_per_order :: rat

text \<open>The tables: the sessions in insertion order, and the profile of each user.\<close>

record db =
  sessions :: "session list"
  profiles :: "(nat \<times> profile) list"

definition get_profile :: "db \<Rightarrow> nat \<Rightarrow> profile option" where
  "get_profile d u = map_of (profiles d) u"

definition put_profile :: "db \<Rightarrow> nat \<Rightarrow> profile \<Rightarrow> db" where
  "put_profile d u p = d\<lparr>profiles := AList.update u p (profiles d)\<rparr>"

section \<open>WorkSession.save\<close>

definition set_duration :: "session \<Rightarrow> session" where
  "set_duration s =
     (case (start_time s, end_time s) of
        (Some st, Some en) \<Rightarrow> s\<lparr>duration_hours := Some (calc_duration st en)\<rparr>
      | _ \<Rightarrow> s)"

text \<open>Lines 147-161: the daily rent figure. Any exception leaves the \<^verbatim>\<open>try\<close> block.\<close>

definition daily_cost :: "profile \<Rightarrow> date \<Rightarrow> error + number" where
  "daily_cost p d =
     (let amount = rent_amount p; freq = rent_frequency p
      in if freq = ''daily'' then Inr amount
         else if freq = ''weekly'' then map_sum id PyDecimal (num_div amount 7)
         else if freq = ''monthly'' then
           (case monthrange (year d) (month d) of
              Inl e \<Rightarrow> Inl e
            | Inr days_in_month \<Rightarrow> map_sum id PyDecimal (num_div amount (of_nat days_in_month)))
         else Inr (PyDecimal 0))"

text \<open>
  Lines 165-167: the user's sessions on the same date, without the session being saved when
  it has a (truthy) primary key.
\<close>

definition existing_sessions :: "db \<Rightarrow> session \<Rightarrow> session list" where
  "existing_sessions d s =
     (let qs = filter (\<lambda>r. user r = user s \<and> date r = date s) (sessions d)
      in case pk s of
           None \<Rightarrow> qs
         | Some k \<Rightarrow> if k \<noteq> 0 then filter (\<lambda>r. pk r \<noteq> Some k) qs else qs)"

text \<open>
  Lines 144-175. \<open>po\<close> is \<^verbatim>\<open>self.user.profile\<close>: \<open>None\<close> when looking it up raises. The
  handler is \<^verbatim>\<open>pass\<close>: on any exception \<^verbatim>\<open>vehicle_rent\<close> keeps the value it had.
\<close>

definition allocate_rent :: "profile option \<Rightarrow> db \<Rightarrow> session \<Rightarrow> session" where
  "allocate_rent po d s =
     (case po of
        None \<Rightarrow> s
      | Some p \<Rightarrow>
          (case daily_cost p (date s) of
             Inl e \<Rightarrow> s
           | Inr dc \<Rightarrow>
               if existing_sessions d s = [] then s\<lparr>vehicle_rent := dc\<rparr>
               else s\<lparr>vehicle_rent := PyDecimal 0\<rparr>))"

text \<open>Lines 178-190.\<close>

definition calc_application_fee :: "profile option \<Rightarrow> rat \<Rightarrow> rat" where
  "calc_application_fee po gross =
     (case po of
        None \<Rightarrow> 0
      | Some p \<Rightarrow>
          if courier_type p = ''SOLOPRENEUR'' then 0
          else (case num_div (fee_percent p) 100 of
                  Inl e \<Rightarrow> 0
                | Inr r \<Rightarrow> dec_mul gross r))"

text \<open>Line 196: the sum is evaluated from the left; a float rent raises TypeError.\<close>

definition calc_total_costs :: "session \<Rightarrow> error + rat" where
  "calc_total_costs s =
     (case vehicle_rent s of
        PyFloat x \<Rightarrow> Inl TypeError
      | PyDecimal r \<Rightarrow>
          Inr (dec_add (dec_add (dec_add (dec_add (dec_add (fuel_cost s) r)
                 (depreciation_cost s)) (other_expenses s)) (platform_fees s))
                 (application_fee s)))"

text \<open>Lines 199-206.\<close>

definition resolve_tax_rate :: "profile option \<Rightarrow> rat" where
  "resolve_tax_rate po =
     (case po of
        None \<Rightarrow> 0
      | Some p \<Rightarrow>
          (case country p of
             None \<Rightarrow> 0
           | Some c \<Rightarrow>
               (case num_div (tax_rate_percentage c) 100 of
                  Inl e \<Rightarrow> 0
                | Inr r \<Rightarrow> r)))"

text \<open>
  Lines 214-227: a KPI is the net profit divided by a basis that is present, nonzero (truthy)
  and positive, and zero otherwise.
\<close>

definition kpi :: "rat \<Rightarrow> rat option \<Rightarrow> error + rat" where
  "kpi net basis =
     (case basis of
        None \<Rightarrow> Inr 0
      | Some b \<Rightarrow> if b \<noteq> 0 \<and> 0 < b then dec_div net b else Inr 0)"

text \<open>Everything \<^verbatim>\<open>save\<close> does before it calls \<^verbatim>\<open>super().save\<close>.\<close>

definition derive_fields :: "profile option \<Rightarrow> db \<Rightarrow> session \<Rightarrow> error + session" where
  "derive_fields po d s0 =
     (let s1 = set_duration s0;
          s2 = allocate_rent po d s1;
          s3 = s2\<lparr>application_fee := calc_application_fee po (gross_earnings s2)\<rparr>;
          s4 = s3\<lparr>total_earnings := dec_add (gross_earnings s3) (tips s3)\<rparr>
      in case calc_total_costs s4 of
           Inl e \<Rightarrow> Inl e
         | Inr total_costs \<Rightarrow>
             let tax_rate = resolve_tax_rate po;
                 pre_tax_profit = dec_sub (total_earnings s4) total_costs;
                 s5 = s4\<lparr>tax_estimate :=
                         (if 0 < pre_tax_profit then dec_mul pre_tax_profit tax_rate else 0)\<rparr>;
                 s6 = s5\<lparr>net_profit := dec_sub pre_tax_profit (tax_estimate s5)\<rparr>
             in case kpi (net_profit s6) (duration_hours s6) of
                  Inl e \<Rightarrow> Inl e
                | Inr pph \<Rightarrow>
                    (case kpi (net_profit s6) (Some (total_distance_km s6)) of
                       Inl e \<Rightarrow> Inl e
                     | Inr ppk \<Rightarrow>
                         (case kpi (net_profit s6) (Some (of_int (total_orders s6))) of
                            Inl e \<Rightarrow> Inl e
                          | Inr ppo \<Rightarrow>
                              Inr (s6\<lparr>profit_per_hour := pph, profit_per_km := ppk,
                                      profit_per_order := ppo\<rparr>))))"

text \<open>
  \<^verbatim>\<open>super().save\<close>: a row without primary key is inserted under a fresh key; a row with a
  primary key replaces the row of that key, or is inserted when there is none. The time
  columns and the duration are NOT NULL. What the column type does to the digits of a value
  belongs to the database and is not modelled: the table holds the values the engine
  assigned.
\<close>

definition fresh_pk :: "session list \<Rightarrow> nat" where
  "fresh_pk rs = Suc (fold max (map (\<lambda>r. case pk r of None \<Rightarrow> 0 | Some k \<Rightarrow> k) rs) 0)"

definition write_row :: "db \<Rightarrow> session \<Rightarrow> error + db \<times> session" where
  "write_row d s =
     (if start_time s = None \<or> end_time s = None \<or> duration_hours s = None
      then Inl IntegrityError
      else case pk s of
             None \<Rightarrow>
               (let s' = s\<lparr>pk := Some (fresh_pk (sessions d))\<rparr>
                in Inr (d\<lparr>sessions := sessions d @ [s']\<rparr>, s'))
           | Some k \<Rightarrow>
               if \<exists>r \<in> set (sessions d). pk r = Some k
               then Inr (d\<lparr>sessions := map (\<lambda>r. if pk r = Some k then s else r) (sessions d)\<rparr>, s)
               else Inr (d\<lparr>sessions := sessions d @ [s]\<rparr>, s))"

definition save :: "db \<Rightarrow> profile option \<Rightarrow> session \<Rightarrow> error + db \<times> session" where
  "save d po s =
     (case derive_fields po d s of
        Inl e \<Rightarrow> Inl e
      | Inr s' \<Rightarrow> write_row d s')"

section \<open>The session API\<close>

text \<open>\<^verbatim>\<open>str.lower\<close> on ASCII text.\<close>

definition lower_char :: "char \<Rightarrow> char" where
  "lower_char c =
     (let n = (of_char c :: nat) in if 65 \<le> n \<and> n \<le> 90 then char_of (n + 32) else c)"

definition lower :: "string \<Rightarrow> string" where
  "lower = map lower_char"

text \<open>
  The serializer's validated data. The optional model fields are present when the client
  sent them; date and times are required when a session is created and optional in an
  update.
\<close>

record amounts =
  a_total_orders :: "int option"
  a_total_distance_km :: "rat option"
  a_gross_earnings :: "rat option"
  a_tips :: "rat option"
  a_fuel_cost :: "rat option"
  a_vehicle_rent :: "rat option"
  a_depreciation_cost :: "rat option"
  a_other_expenses :: "rat option"
  a_platform_fees :: "rat option"

record create_data =
  c_date :: date
  c_start_time :: time
  c_end_time :: time
  c_amounts :: amounts

record update_data =
  u_date :: "date option"
  u_start_time :: "time option"
  u_end_time :: "time option"
  u_amounts :: amounts

text \<open>
  Lines 60-64 and 71-75 of the serializer: for a profile whose transport type is bicycle or
  scooter the fuel cost in the validated data is overwritten with 0.
\<close>

definition force_fuel :: "profile option \<Rightarrow> amounts \<Rightarrow> amounts" where
  "force_fuel po a =
     (case po of
        None \<Rightarrow> a
      | Some p \<Rightarrow>
          (let tt = (if transport_type p \<noteq> [] then lower (transport_type p) else [])
           in if tt \<in> set [''bicycle'', ''scooter''] then a\<lparr>a_fuel_cost := Some 0\<rparr> else a))"

definition or_default :: "'a option \<Rightarrow> 'a \<Rightarrow> 'a" where
  "or_default x d = (case x of None \<Rightarrow> d | Some v \<Rightarrow> v)"

text \<open>
  \<^verbatim>\<open>WorkSession(**validated_data)\<close>: a field that is not given takes the default of the model.
  The default of \<^verbatim>\<open>vehicle_rent\<close> is the float \<^verbatim>\<open>0.0\<close>; a submitted rent is a Decimal. The
  computed fields are overwritten by \<^verbatim>\<open>save\<close> before they are read.
\<close>

definition new_instance :: "nat \<Rightarrow> create_data \<Rightarrow> session" where
  "new_instance u cd =
     (let a = c_amounts cd in
      \<lparr>pk = None, user = u, date = c_date cd,
       start_time = Some (c_start_time cd), end_time = Some (c_end_time cd),
       duration_hours = None,
       total_orders = or_default (a_total_orders a) 0,
       total_distance_km = or_default (a_total_distance_km a) 0,
       gross_earnings = or_default (a_gross_earnings a) 0,
       tips = or_default (a_tips a) 0,
       fuel_cost = or_default (a_fuel_cost a) 0,
       vehicle_rent = (case a_vehicle_rent a of None \<Rightarrow> PyFloat 0 | Some v \<Rightarrow> PyDecimal v),
       depreciation_cost = or_default (a_depreciation_cost a) 0,
       other_expenses = or_default (a_other_expenses a) 0,
       application_fee = 0, total_earnings = 0,
       platform_fees = or_default (a_platform_fees a) 0,
       tax_estimate = 0, net_profit = 0,
       profit_per_hour = 0, profit_per_km = 0, profit_per_order = 0\<rparr>)"

text \<open>\<^verbatim>\<open>setattr(instance, attr, value)\<close> for every item of the validated data.\<close>

definition set_attrs :: "update_data \<Rightarrow> session \<Rightarrow> session" where
  "set_attrs ud s =
     (let a = u_amounts ud in
      s\<lparr>date := or_default (u_date ud) (date s),
        start_time := (case u_start_time ud of None \<Rightarrow> start_time s | Some t \<Rightarrow> Some t),
        end_time := (case u_end_time ud of None \<Rightarrow> end_time s | Some t \<Rightarrow> Some t),
        total_orders := or_default (a_total_orders a) (total_orders s),
        total_distance_km := or_default (a_total_distance_km a) (total_distance_km s),
        gross_earnings := or_default (a_gross_earnings a) (gross_earnings s),
        tips := or_default (a_tips a) (tips s),
        fuel_cost := or_default (a_fuel_cost a) (fuel_cost s),
        vehicle_rent := (case a_vehicle_rent a of None \<Rightarrow> vehicle_rent s | Some v \<Rightarrow> PyDecimal v),
        depreciation_cost := or_default (a_depreciation_cost a) (depreciation_cost s),
        other_expenses := or_default (a_other_expenses a) (other_expenses s),
        platform_fees := or_default (a_platform_fees a) (platform_fees s)\<rparr>)"

text \<open>
  \<^verbatim>\<open>WorkSessionSerializer.create\<close> and \<^verbatim>\<open>update\<close>. \<open>po\<close> is the profile cached on the
  request's user, which is also the user of the session.
\<close>

definition serializer_create ::
  "db \<Rightarrow> profile option \<Rightarrow> nat \<Rightarrow> create_data \<Rightarrow> error + db \<times> session" where
  "serializer_create d po u cd =
     save d po (new_instance u (cd\<lparr>c_amounts := force_fuel po (c_amounts cd)\<rparr>))"

definition serializer_update ::
  "db \<Rightarrow> profile option \<Rightarrow> session \<Rightarrow> update_data \<Rightarrow> error + db \<times> session" where
  "serializer_update d po instance ud =
     save d po (set_attrs (ud\<lparr>u_amounts := force_fuel po (u_amounts ud)\<rparr>) instance)"

text \<open>
  \<^verbatim>\<open>UserProfile.objects.create(user=user)\<close>: the instance in memory carries the field
  defaults as written (floats for the two decimal fields); the row in the table holds
  decimals.
\<close>

definition default_profile :: profile where
  "default_profile =
     \<lparr>country = None, transport_type = ''car'', courier_type = ''FLEET_COMPANY'',
      fee_percent = PyFloat 0, credits = 300, rent_frequency = ''daily'',
      rent_amount = PyFloat 0, is_pro = False\<rparr>"

definition stored_profile :: "profile \<Rightarrow> profile" where
  "stored_profile p =
     p\<lparr>fee_percent := PyDecimal (num_value (fee_percent p)),
       rent_amount := PyDecimal (num_value (rent_amount p))\<rparr>"

text \<open>
  \<^verbatim>\<open>WorkSessionViewSet.perform_create\<close>. The result is the database after the request and
  the created session or the exception: the credit deduction is committed by its own
  transaction before the session is saved.
\<close>

definition perform_create :: "db \<Rightarrow> nat \<Rightarrow> create_data \<Rightarrow> db \<times> (error + session)" where
  "perform_create d u cd =
     (let (d1, prof) =
            (case get_profile d u of
               None \<Rightarrow> (put_profile d u (stored_profile default_profile), default_profile)
             | Some p \<Rightarrow> (d, p));
          finish = (\<lambda>d2. case serializer_create d2 (Some prof) u cd of
                            Inl e \<Rightarrow> (d2, Inl e)
                          | Inr (d3, s) \<Rightarrow> (d3, Inr s))
      in if \<not> is_pro prof then
           if credits prof < 10 then (d1, Inl CreditsExhausted)
           else (case get_profile d1 u of
                   None \<Rightarrow> (d1, Inl NotFound)
                 | Some locked \<Rightarrow>
                     if credits locked < 10 then (d1, Inl CreditsExhausted)
                     else finish (put_profile d1 u (locked\<lparr>credits := credits locked - 10\<rparr>)))
         else finish d1)"

text \<open>
  An update through the view set: the instance is looked up among the sessions of the
  request's user (404 otherwise) and passed to the serializer.
\<close>

definition perform_update ::
  "db \<Rightarrow> nat \<Rightarrow> nat \<Rightarrow> update_data \<Rightarrow> db \<times> (error + session)" where
  "perform_update d u k ud =
     (case filter (\<lambda>r. user r = u \<and> pk r = Some k) (sessions d) of
        [] \<Rightarrow> (d, Inl NotFound)
      | instance # rest \<Rightarrow>
          (case serializer_update d (get_profile d u) instance ud of
             Inl e \<Rightarrow> (d, Inl e)
           | Inr (d', s) \<Rightarrow> (d', Inr s)))"

section \<open>The dashboard\<close>

definition days_before_year :: "nat \<Rightarrow> int" where
  "days_before_year y = (let z = int y - 1 in z * 365 + z div 4 - z div 100 + z div 400)"

definition days_before_month :: "nat \<Rightarrow> nat \<Rightarrow> int" where
  "days_before_month y m =
     int (sum_list (take m mdays)) + (if 2 < m \<and> isleap y then 1 else 0)"

definition toordinal :: "date \<Rightarrow> int" where
  "toordinal d = days_before_year (year d) + days_before_month (year d) (month d) + int (day d)"

definition weekday :: "date \<Rightarrow> int" where
  "weekday d = (toordinal d + 6) mod 7"

text \<open>
  Lines 239-253: the sessions of the user in the period. \<open>today\<close> is the reference date
  after parsing; an unknown period selects every session of the user.
\<close>

definition period_sessions :: "db \<Rightarrow> nat \<Rightarrow> string \<Rightarrow> date \<Rightarrow> session list" where
  "period_sessions d u period today =
     (let queryset = filter (\<lambda>r. user r = u) (sessions d)
      in if period = ''today'' then filter (\<lambda>r. date r = today) queryset
         else if period = ''week'' then
           (let start_date = toordinal today - weekday today;
                end_date = start_date + 6
            in filter (\<lambda>r. start_date \<le> toordinal (date r) \<and> toordinal (date r) \<le> end_date)
                 queryset)
         else if period = ''month'' then
           filter (\<lambda>r. year (date r) = year today \<and> month (date r) = month today) queryset
         else queryset)"

text \<open>The aggregate \<^verbatim>\<open>Sum\<close>: \<^verbatim>\<open>None\<close> over no rows.\<close>

definition Sum :: "(session \<Rightarrow> rat) \<Rightarrow> session list \<Rightarrow> rat option" where
  "Sum f qs = (if qs = [] then None else Some (sum_list (map f qs)))"

definition or_zero :: "rat option \<Rightarrow> rat" where
  "or_zero x = (case x of None \<Rightarrow> 0 | Some v \<Rightarrow> if v \<noteq> 0 then v else 0)"

record dashboard =
  r_total_net_profit :: rat
  r_total_earnings :: rat
  r_total_costs :: rat
  r_avg_profit_per_hour :: rat
  r_total_duration_hours :: rat
  r_total_distance_km :: rat
  r_session_count :: nat
  r_chart_data :: "(date \<times> rat \<times> rat \<times> rat) list"
  r_recent_sessions :: "session list"

text \<open>Lines 279-284: one entry per date of the selection, by ascending date.\<close>

definition chart_data :: "session list \<Rightarrow> (date \<times> rat \<times> rat \<times> rat) list" where
  "chart_data qs =
     map (\<lambda>dt. let grp = filter (\<lambda>r. date r = dt) qs;
                    profit = sum_list (map net_profit grp);
                    earnings = sum_list (map total_earnings grp)
                in (dt, profit, earnings, earnings - profit))
       (sort (remdups (map date qs)))"

text \<open>
  Lines 301-303: the five first sessions of the user by descending date, then descending
  start time.
\<close>

definition recent_key :: "session \<Rightarrow> date \<times> time option" where
  "recent_key r = (date r, start_time r)"

definition recent_qs :: "db \<Rightarrow> nat \<Rightarrow> session list" where
  "recent_qs d u = take 5 (rev (sort_key recent_key (filter (\<lambda>r. user r = u) (sessions d))))"

text \<open>\<^verbatim>\<open>DashboardMetricsView.get\<close>.\<close>

definition dashboard_get :: "db \<Rightarrow> nat \<Rightarrow> string \<Rightarrow> date \<Rightarrow> dashboard" where
  "dashboard_get d u period today =
     (let queryset = period_sessions d u period today;
          total_costs =
            dec_add (dec_add (dec_add (dec_add
              (or_zero (Sum fuel_cost queryset))
              (or_zero (Sum (\<lambda>r. num_value (vehicle_rent r)) queryset)))
              (or_zero (Sum depreciation_cost queryset)))
              (or_zero (Sum other_expenses queryset)))
              (or_zero (Sum platform_fees queryset));
          total_profit = or_zero (Sum net_profit queryset);
          total_duration = or_zero (Sum (\<lambda>r. or_default (duration_hours r) 0) queryset);
          total_dist = or_zero (Sum total_distance_km queryset)
      in \<lparr>r_total_net_profit = total_profit,
          r_total_earnings = or_zero (Sum total_earnings queryset),
          r_total_costs = total_costs,
          r_avg_profit_per_hour =
            (if 0 < total_duration then ctx (total_profit / total_duration) else 0),
          r_total_duration_hours = total_duration,
          r_total_distance_km = total_dist,
          r_session_count = length queryset,
          r_chart_data = chart_data queryset,
          r_recent_sessions = recent_qs d u\<rparr>)"

text \<open>A value of a column \<^verbatim>\<open>DecimalField(max_digits=10, decimal_places=2)\<close>.\<close>

definition column_10_2 :: "rat \<Rightarrow> bool" where
  "column_10_2 v = (of_int \<lfloor>v * 100\<rfloor> = v * 100 \<and> \<bar>v\<bar> < 10 ^ 8)"

text \<open>The five cost columns of a session hold column values.\<close>

definition cost_columns :: "session \<Rightarrow> bool" where
  "cost_columns r =
     (column_10_2 (fuel_cost r) \<and> column_10_2 (num_value (vehicle_rent r)) \<and>
      column_10_2 (depreciation_cost r) \<and> column_10_2 (other_expenses r) \<and>
      column_10_2 (platform_fees r))"

section \<open>Rent allocation: specification and invariant\<close>

text \<open>
  The daily rent figure in the words of the specification: the amount for a daily rent, a
  seventh of it for a weekly rent, and the amount divided by the number of days of the
  session's month for a monthly rent, in decimal arithmetic. For any other frequency the
  code leaves the figure at zero.
\<close>

definition days_in_month :: "nat \<Rightarrow> nat \<Rightarrow> nat" where
  "days_in_month y m = mdays ! m + (if m = 2 \<and> isleap y then 1 else 0)"





section \<open>Example data\<close>

definition empty_db :: db where
  "empty_db = \<lparr>sessions = [], profiles = []\<rparr>"

definition test_country :: country where
  "test_country = \<lparr>tax_rate_percentage = PyDecimal 10\<rparr>"

definition test_profile :: profile where
  "test_profile =
     \<lparr>country = Some test_country, transport_type = ''car'', courier_type = ''FLEET_COMPANY'',
      fee_percent = PyDecimal 0, credits = 300, rent_frequency = ''daily'',
      rent_amount = PyDecimal 0, is_pro = False\<rparr>"

text \<open>The session of \<^verbatim>\<open>test_profit_calculation\<close>: two hours, 100 gross, 10 tips, 5 fuel, 2 upkeep.\<close>

definition test_session :: session where
  "test_session =
     \<lparr>pk = None, user = 1, date = (2024, 3, 15),
      start_time = Some (18, 0, 0, 0), end_time = Some (20, 0, 0, 0),
      duration_hours = None, total_orders = 0, total_distance_km = 20,
      gross_earnings = 100, tips = 10, fuel_cost = 5, vehicle_rent = PyFloat 0,
      depreciation_cost = 2, other_expenses = 0, application_fee = 0, total_earnings = 0,
      platform_fees = 0, tax_estimate = 0, net_profit = 0,
      profit_per_hour = 0, profit_per_km = 0, profit_per_order = 0\<rparr>"

definition test_saved :: session where
  "test_saved =
     test_session\<lparr>pk := Some 1, duration_hours := Some 2, vehicle_rent := PyDecimal 0,
       total_earnings := 110, tax_estimate := 103 / 10, net_profit := 927 / 10,
       profit_per_hour := 927 / 20, profit_per_km := 927 / 200\<rparr>"

text \<open>A bicycle courier who submits a fuel cost of 10, and later one of 20.\<close>

definition bike_profile :: profile where
  "bike_profile = test_profile\<lparr>transport_type := ''bicycle''\<rparr>"

definition bike_db :: db where
  "bike_db = \<lparr>sessions = [], profiles = [(1, bike_profile)]\<rparr>"

definition car_db :: db where
  "car_db = \<lparr>sessions = [], profiles = [(1, test_profile)]\<rparr>"

definition no_amounts :: amounts where
  "no_amounts =
     \<lparr>a_total_orders = None, a_total_distance_km = None, a_gross_earnings = None,
      a_tips = None, a_fuel_cost = None, a_vehicle_rent = None, a_depreciation_cost = None,
      a_other_expenses = None, a_platform_fees = None\<rparr>"

definition bike_request :: create_data where
  "bike_request =
     \<lparr>c_date = (2024, 3, 15), c_start_time = (18, 0, 0, 0), c_end_time = (20, 0, 0, 0),
      c_amounts = no_amounts\<lparr>a_total_orders := Some 5, a_total_distance_km := Some 10,
        a_gross_earnings := Some 50, a_tips := Some 5, a_fuel_cost := Some 10\<rparr>\<rparr>"

definition bike_patch :: update_data where
  "bike_patch =
     \<lparr>u_date = None, u_start_time = None, u_end_time = None,
      u_amounts = no_amounts\<lparr>a_fuel_cost := Some 20\<rparr>\<rparr>"

definition bike_saved :: session where
  "bike_saved =
     \<lparr>pk = Some 1, user = 1, date = (2024, 3, 15),
      start_time = Some (18, 0, 0, 0), end_time = Some (20, 0, 0, 0),
      duration_hours = Some 2, total_orders = 5, total_distance_km = 10,
      gross_earnings = 50, tips = 5, fuel_cost = 0, vehicle_rent = PyDecimal 0,
      depreciation_cost = 0, other_expenses = 0, application_fee = 0, total_earnings = 55,
      platform_fees = 0, tax_estimate = 11 / 2, net_profit = 99 / 2,
      profit_per_hour = 99 / 4, profit_per_km = 99 / 20, profit_per_order = 99 / 10\<rparr>"

definition bike_db1 :: db where
  "bike_db1 = \<lparr>sessions = [bike_saved], profiles = [(1, bike_profile\<lparr>credits := 290\<rparr>)]\<rparr>"

definition car_saved :: session where
  "car_saved =
     bike_saved\<lparr>fuel_cost := 10, tax_estimate := 9 / 2, net_profit := 81 / 2,
       profit_per_hour := 81 / 4, profit_per_km := 81 / 20, profit_per_order := 81 / 10\<rparr>"

definition car_db1 :: db where
  "car_db1 = \<lparr>sessions = [car_saved], profiles = [(1, test_profile\<lparr>credits := 290\<rparr>)]\<rparr>"

definition car_patched :: session where
  "car_patched =
     car_saved\<lparr>fuel_cost := 20, tax_estimate := 7 / 2, net_profit := 63 / 2,
       profit_per_hour := 63 / 4, profit_per_km := 63 / 20, profit_per_order := 63 / 10\<rparr>"





text \<open>Two sessions of user 1 on 15 March 2024.\<close>

definition dash_db :: db where
  "dash_db =
     \<lparr>sessions = [car_saved, test_saved\<lparr>pk := Some 2, start_time := Some (21, 0, 0, 0),
                     end_time := Some (23, 0, 0, 0)\<rparr>],
      profiles = [(1, test_profile)]\<rparr>"

text \<open>
  The duration in the words of the specification: end minus start in hours when the end is
  not before the start, and end plus 24 hours minus start otherwise.
\<close>

definition spec_duration_hours :: "time \<Rightarrow> time \<Rightarrow> rat" where
  "spec_duration_hours st en =
     (if st \<le> en then of_int (time_us en - time_us st)
      else of_int (time_us en + 24 * 3600 * 1000000 - time_us st)) / (3600 * 1000000)"

text \<open>A night shift from 23:00 to 01:00.\<close>

definition night_session :: session where
  "night_session =
     test_session\<lparr>start_time := Some (23, 0, 0, 0), end_time := Some (1, 0, 0, 0)\<rparr>"


definition supplied_rent_session :: session where
  "supplied_rent_session = test_session\<lparr>vehicle_rent := PyDecimal 50\<rparr>"


section \<open>Properties of the derivation\<close>

lemma kpi_value:
  "kpi net basis = Inr (case basis of None \<Rightarrow> 0 | Some b \<Rightarrow> if 0 < b then ctx (net / b) else 0)"
  by (auto simp: kpi_def dec_div_def split: option.splits)

lemma pk_update_self: "s = s\<lparr>pk := pk s\<rparr>"
  by simp

lemma write_row_fields:
  assumes "write_row d s = Inr (d', s')"
  shows "\<exists>k. s' = s\<lparr>pk := k\<rparr>" and "profiles d' = profiles d" and "s' \<in> set (sessions d')"
proof -
  have "s' = s\<lparr>pk := pk s'\<rparr>"
    using assms by (auto simp: write_row_def Let_def split: if_splits option.splits)
  then show "\<exists>k. s' = s\<lparr>pk := k\<rparr>" ..
  show "profiles d' = profiles d"
    using assms by (auto simp: write_row_def Let_def split: if_splits option.splits)
  show "s' \<in> set (sessions d')"
    using assms by (auto simp: write_row_def Let_def split: if_splits option.splits)
qed

lemma save_derive:
  assumes "save d po s = Inr (d', s')"
  obtains s1 where "derive_fields po d s = Inr s1" and "write_row d s1 = Inr (d', s')"
  using assms by (auto simp: save_def split: sum.splits)

lemma calc_total_costs_pk [simp]: "calc_total_costs (s\<lparr>pk := k\<rparr>) = calc_total_costs s"
  by (simp add: calc_total_costs_def split: number.splits)

lemma derive_fields_kpis:
  assumes "derive_fields po d s = Inr s'"
  shows "profit_per_hour s' =
           (case duration_hours s' of None \<Rightarrow> 0
            | Some h \<Rightarrow> if 0 < h then ctx (net_profit s' / h) else 0)"
    and "profit_per_km s' =
           (if 0 < total_distance_km s' then ctx (net_profit s' / total_distance_km s') else 0)"
    and "profit_per_order s' =
           (if 0 < total_orders s' then ctx (net_profit s' / of_int (total_orders s')) else 0)"
  using assms
  by (auto simp: derive_fields_def Let_def kpi_value split: sum.splits option.splits)

lemma derive_fields_tax:
  assumes "derive_fields po d s = Inr s'"
  shows "\<exists>tc. calc_total_costs s' = Inr tc \<and>
           tax_estimate s' =
             (if 0 < dec_sub (total_earnings s') tc
              then dec_mul (dec_sub (total_earnings s') tc) (resolve_tax_rate po) else 0) \<and>
           net_profit s' = dec_sub (dec_sub (total_earnings s') tc) (tax_estimate s')"
  using assms
  by (auto simp: derive_fields_def Let_def kpi_value calc_total_costs_def
           split: sum.splits number.splits)

lemma test_save:
  "save empty_db (Some test_profile) test_session =
     Inr (empty_db\<lparr>sessions := [test_saved]\<rparr>, test_saved)"
  by code_simp

text \<open>
  C4. For a saved session the tax estimate is the pre-tax profit (total earnings minus the
  six-part total costs) times the tax rate when the pre-tax profit is positive and zero
  otherwise; the net profit is the pre-tax profit minus the tax estimate; the tax rate is 0
  for a profile without country and the country's percentage divided by 100 otherwise. All
  operations are those of the decimal context.
\<close>

theorem save_tax_estimate:
  assumes "save d po s = Inr (d', s')"
  shows "\<exists>tc. calc_total_costs s' = Inr tc \<and>
           tax_estimate s' =
             (if 0 < dec_sub (total_earnings s') tc
              then dec_mul (dec_sub (total_earnings s') tc) (resolve_tax_rate po) else 0) \<and>
           net_profit s' = dec_sub (dec_sub (total_earnings s') tc) (tax_estimate s') \<and>
           (\<forall>p. po = Some p \<and> country p = None \<longrightarrow> resolve_tax_rate po = 0) \<and>
           (\<forall>p c t. po = Some p \<and> country p = Some c \<and> tax_rate_percentage c = PyDecimal t
              \<longrightarrow> resolve_tax_rate po = ctx (t / 100))"
proof -
  obtain s1 where d: "derive_fields po d s = Inr s1" and w: "write_row d s1 = Inr (d', s')"
    using assms by (rule save_derive)
  obtain k where eq: "s' = s1\<lparr>pk := k\<rparr>" using write_row_fields(1) [OF w] by blast
  obtain tc where tc: "calc_total_costs s1 = Inr tc"
    and tax: "tax_estimate s1 =
             (if 0 < dec_sub (total_earnings s1) tc
              then dec_mul (dec_sub (total_earnings s1) tc) (resolve_tax_rate po) else 0)"
    and net: "net_profit s1 = dec_sub (dec_sub (total_earnings s1) tc) (tax_estimate s1)"
    using derive_fields_tax [OF d] by blast
  have "calc_total_costs s' = Inr tc"
    using tc unfolding eq by simp
  moreover have "tax_estimate s' = tax_estimate s1" "net_profit s' = net_profit s1"
    "total_earnings s' = total_earnings s1"
    unfolding eq by simp_all
  moreover have "\<forall>p. po = Some p \<and> country p = None \<longrightarrow> resolve_tax_rate po = 0"
    by (auto simp: resolve_tax_rate_def)
  moreover have "\<forall>p c t. po = Some p \<and> country p = Some c \<and> tax_rate_percentage c = PyDecimal t
              \<longrightarrow> resolve_tax_rate po = ctx (t / 100)"
    by (auto simp: resolve_tax_rate_def dec_div_def)
  ultimately show ?thesis using tax net by auto
qed

theorem save_tax_estimate_witness:
  "save empty_db (Some test_profile) test_session =
     Inr (empty_db\<lparr>sessions := [test_saved]\<rparr>, test_saved) \<and>
   calc_total_costs test_saved = Inr 7 \<and> tax_estimate test_saved = 103 / 10 \<and>
   net_profit test_saved = 927 / 10 \<and> resolve_tax_rate (Some test_profile) = 1 / 10"
proof -
  have r: "resolve_tax_rate (Some test_profile) = 1 / 10" by code_simp
  have c: "calc_total_costs test_saved = Inr 7" by code_simp
  have "tax_estimate test_saved = 103 / 10" "net_profit test_saved = 927 / 10"
    by (simp_all add: test_saved_def)
  with save_tax_estimate [OF test_save] test_save r c show ?thesis by simp
qed

text \<open>
  C6. The worked example: 100 gross, 10 tips, 5 fuel, 2 upkeep, no other cost, no rent, no
  application fee, a country tax rate of 10 percent and a shift from 18:00 to 20:00 give
  total earnings 110, net profit 92.70 and 46.35 profit per hour.
\<close>

theorem worked_example:
  "map_sum id (\<lambda>(d, s). (duration_hours s, total_earnings s, net_profit s, profit_per_hour s))
     (save empty_db (Some test_profile) test_session) =
   Inr (Some 2, 110, 927 / 10, 927 / 20)"
  by (simp add: test_save) (simp add: test_saved_def test_session_def)

theorem worked_example_witness:
  "\<exists>d s. save empty_db (Some test_profile) test_session = Inr (d, s) \<and>
     total_earnings s = 110 \<and> net_profit s = 927 / 10 \<and> profit_per_hour s = 927 / 20"
  using worked_example by (auto simp: test_save)

text \<open>
  C8. For a saved session each KPI is the net profit divided by its basis (duration,
  distance, order count) when the basis is positive, and 0 when the basis is zero, negative
  or (for the duration) missing; computing a KPI never raises.
\<close>

theorem save_kpis_guarded:
  assumes "save d po s = Inr (d', s')"
  shows "profit_per_hour s' =
           (case duration_hours s' of None \<Rightarrow> 0
            | Some h \<Rightarrow> if 0 < h then ctx (net_profit s' / h) else 0) \<and>
         profit_per_km s' =
           (if 0 < total_distance_km s' then ctx (net_profit s' / total_distance_km s') else 0) \<and>
         profit_per_order s' =
           (if 0 < total_orders s' then ctx (net_profit s' / of_int (total_orders s')) else 0) \<and>
         (\<forall>net basis. \<exists>v. kpi net basis = Inr v)"
proof -
  obtain s1 where d: "derive_fields po d s = Inr s1" and w: "write_row d s1 = Inr (d', s')"
    using assms by (rule save_derive)
  obtain k where eq: "s' = s1\<lparr>pk := k\<rparr>" using write_row_fields(1) [OF w] by blast
  have "\<forall>net basis. \<exists>v. kpi net basis = Inr v"
    by (simp add: kpi_value)
  with derive_fields_kpis [OF d] show ?thesis
    unfolding eq by (simp split: option.splits)
qed

theorem save_kpis_guarded_witness:
  "save empty_db (Some test_profile) test_session =
     Inr (empty_db\<lparr>sessions := [test_saved]\<rparr>, test_saved) \<and>
   profit_per_hour test_saved = ctx ((927 / 10) / 2) \<and>
   profit_per_km test_saved = ctx ((927 / 10) / 20) \<and>
   profit_per_order test_saved = 0"
  using save_kpis_guarded [OF test_save] test_save
  by (simp add: test_saved_def test_session_def)

section \<open>Saving succeeds; inputs are kept\<close>

lemma mdays_ge_28: "1 \<le> m \<Longrightarrow> m \<le> 12 \<Longrightarrow> 28 \<le> mdays ! m"
proof -
  assume "1 \<le> m" "m \<le> 12"
  then have "m = 1 \<or> m = 2 \<or> m = 3 \<or> m = 4 \<or> m = 5 \<or> m = 6 \<or> m = 7 \<or> m = 8 \<or> m = 9
    \<or> m = 10 \<or> m = 11 \<or> m = 12" by arith
  then show ?thesis by (auto simp: mdays_def)
qed

lemma monthrange_valid:
  "valid_date dt \<Longrightarrow> \<exists>n. monthrange (year dt) (month dt) = Inr n \<and> 28 \<le> n"
  using mdays_ge_28 [of "month dt"]
  by (auto simp: valid_date_def monthrange_def)

lemma daily_cost_decimal:
  assumes "rent_amount p = PyDecimal a" and "valid_date dt"
  shows "daily_cost p dt =
           Inr (PyDecimal
             (if rent_frequency p = ''daily'' then a
              else if rent_frequency p = ''weekly'' then ctx (a / 7)
              else if rent_frequency p = ''monthly''
                then ctx (a / of_nat (case monthrange (year dt) (month dt) of Inr n \<Rightarrow> n | Inl e \<Rightarrow> 0))
              else 0))"
  using assms monthrange_valid [OF assms(2)]
  by (auto simp: daily_cost_def Let_def dec_div_def)

lemma allocate_rent_decimal:
  assumes "rent_amount p = PyDecimal a" and "valid_date (date s)"
  shows "\<exists>r. vehicle_rent (allocate_rent (Some p) d s) = PyDecimal r"
  using daily_cost_decimal [OF assms]
  by (auto simp: allocate_rent_def)

lemma derive_fields_succeeds:
  assumes "vehicle_rent (allocate_rent po d (set_duration s)) = PyDecimal r"
  shows "\<exists>s'. derive_fields po d s = Inr s'"
  using assms
  by (simp add: derive_fields_def Let_def kpi_value calc_total_costs_def)

lemma set_duration_times:
  "start_time (set_duration s) = start_time s" "end_time (set_duration s) = end_time s"
  "start_time s = Some st \<Longrightarrow> end_time s = Some en \<Longrightarrow>
     duration_hours (set_duration s) = Some (calc_duration st en)"
  by (auto simp: set_duration_def split: option.splits)

lemma allocate_rent_times:
  "start_time (allocate_rent po d s) = start_time s"
  "end_time (allocate_rent po d s) = end_time s"
  "duration_hours (allocate_rent po d s) = duration_hours s"
  by (auto simp: allocate_rent_def split: option.splits sum.splits)

lemma derive_fields_times:
  assumes "derive_fields po d s = Inr s'"
  shows "start_time s' = start_time s" and "end_time s' = end_time s"
    and "duration_hours s' = duration_hours (set_duration s)"
  using assms
  by (auto simp: derive_fields_def Let_def set_duration_times allocate_rent_times
           split: sum.splits)

lemma write_row_succeeds:
  assumes "start_time s \<noteq> None" and "end_time s \<noteq> None" and "duration_hours s \<noteq> None"
  shows "\<exists>d' s'. write_row d s = Inr (d', s')"
  using assms by (auto simp: write_row_def Let_def split: option.splits)

lemma save_succeeds:
  assumes "start_time s = Some st" and "end_time s = Some en"
    and "vehicle_rent (allocate_rent po d (set_duration s)) = PyDecimal r"
  shows "\<exists>d' s'. save d po s = Inr (d', s')"
proof -
  obtain s1 where d: "derive_fields po d s = Inr s1"
    using derive_fields_succeeds [OF assms(3)] by blast
  have "start_time s1 \<noteq> None" "end_time s1 \<noteq> None" "duration_hours s1 \<noteq> None"
    using derive_fields_times [OF d] set_duration_times(3) [OF assms(1,2)] assms(1,2) by simp_all
  then obtain d' s' where "write_row d s1 = Inr (d', s')"
    using write_row_succeeds by blast
  then show ?thesis using d by (simp add: save_def)
qed

lemma set_duration_inputs:
  "fuel_cost (set_duration s) = fuel_cost s" "user (set_duration s) = user s"
  "date (set_duration s) = date s" "vehicle_rent (set_duration s) = vehicle_rent s"
  "pk (set_duration s) = pk s"
  by (auto simp: set_duration_def split: option.splits)

lemma allocate_rent_inputs:
  "fuel_cost (allocate_rent po d s) = fuel_cost s" "user (allocate_rent po d s) = user s"
  "date (allocate_rent po d s) = date s" "pk (allocate_rent po d s) = pk s"
  by (auto simp: allocate_rent_def split: option.splits sum.splits)

lemma derive_fields_inputs:
  assumes "derive_fields po d s = Inr s'"
  shows "fuel_cost s' = fuel_cost s" and "user s' = user s" and "date s' = date s"
    and "pk s' = pk s"
  using assms
  by (auto simp: derive_fields_def Let_def set_duration_inputs allocate_rent_inputs
           split: sum.splits)

lemma save_inputs:
  assumes "save d po s = Inr (d', s')"
  shows "fuel_cost s' = fuel_cost s" and "user s' = user s" and "date s' = date s"
    and "profiles d' = profiles d" and "s' \<in> set (sessions d')"
proof -
  obtain s1 where d: "derive_fields po d s = Inr s1" and w: "write_row d s1 = Inr (d', s')"
    using assms by (rule save_derive)
  obtain k where eq: "s' = s1\<lparr>pk := k\<rparr>" using write_row_fields(1) [OF w] by blast
  show "fuel_cost s' = fuel_cost s" "user s' = user s" "date s' = date s"
    unfolding eq using derive_fields_inputs [OF d] by simp_all
  show "profiles d' = profiles d" "s' \<in> set (sessions d')"
    using write_row_fields [OF w] by simp_all
qed

lemma lower_values:
  "lower ''bicycle'' = ''bicycle''" "lower ''scooter'' = ''scooter''"
  "lower ''motorcycle'' = ''motorcycle''" "lower ''car'' = ''car''"
  by (simp_all add: lower_def lower_char_def)

lemma force_fuel_cases:
  "transport_type p \<in> {''bicycle'', ''scooter''} \<Longrightarrow>
     force_fuel (Some p) a = a\<lparr>a_fuel_cost := Some 0\<rparr>"
  "transport_type p \<in> {''motorcycle'', ''car''} \<Longrightarrow> force_fuel (Some p) a = a"
  by (auto simp: force_fuel_def lower_values)

lemma serializer_create_fuel:
  assumes "serializer_create d (Some p) u cd = Inr (d', s')"
  shows "s' \<in> set (sessions d')"
    and "transport_type p \<in> {''bicycle'', ''scooter''} \<Longrightarrow> fuel_cost s' = 0"
    and "transport_type p \<in> {''motorcycle'', ''car''} \<Longrightarrow>
           fuel_cost s' = or_default (a_fuel_cost (c_amounts cd)) 0"
  using save_inputs(1,5) [OF assms [unfolded serializer_create_def]]
  by (simp_all add: force_fuel_cases new_instance_def Let_def or_default_def)

lemma serializer_update_fuel:
  assumes "serializer_update d (Some p) inst ud = Inr (d', s')"
  shows "s' \<in> set (sessions d')"
    and "transport_type p \<in> {''bicycle'', ''scooter''} \<Longrightarrow> fuel_cost s' = 0"
    and "transport_type p \<in> {''motorcycle'', ''car''} \<Longrightarrow>
           fuel_cost s' = or_default (a_fuel_cost (u_amounts ud)) (fuel_cost inst)"
  using save_inputs(1,5) [OF assms [unfolded serializer_update_def]]
  by (simp_all add: force_fuel_cases set_attrs_def Let_def or_default_def)

lemma perform_create_profile:
  assumes "get_profile d u = Some p" and "perform_create d u cd = (d', Inr s')"
  shows "\<exists>d2. serializer_create d2 (Some p) u cd = Inr (d', s')"
  using assms
  by (auto simp: perform_create_def Let_def split: if_splits option.splits sum.splits)

lemma perform_update_profile:
  assumes "get_profile d u = Some p" and "perform_update d u k ud = (d', Inr s')"
  shows "\<exists>inst. inst \<in> set (sessions d) \<and> user inst = u \<and> pk inst = Some k \<and>
           serializer_update d (Some p) inst ud = Inr (d', s')"
proof -
  obtain inst rest where f: "filter (\<lambda>r. user r = u \<and> pk r = Some k) (sessions d) = inst # rest"
    using assms(2) by (auto simp: perform_update_def split: list.splits)
  then have "inst \<in> set (filter (\<lambda>r. user r = u \<and> pk r = Some k) (sessions d))" by simp
  then have "inst \<in> set (sessions d)" "user inst = u" "pk inst = Some k" by auto
  moreover have "serializer_update d (Some p) inst ud = Inr (d', s')"
    using assms f by (auto simp: perform_update_def split: sum.splits)
  ultimately show ?thesis by blast
qed

text \<open>
  C2. Through the API, for a user whose profile has transport type bicycle or scooter the
  stored fuel cost of a created or updated session is 0 whatever the client sent; for
  motorcycle and car it is the value the client sent (the model default 0 when a new
  session is sent without one).
\<close>

theorem api_fuel_cost_enforced:
  assumes "get_profile d u = Some p"
  shows "(perform_create d u cd = (d', Inr s') \<longrightarrow>
            s' \<in> set (sessions d') \<and>
            (transport_type p \<in> {''bicycle'', ''scooter''} \<longrightarrow> fuel_cost s' = 0) \<and>
            (transport_type p \<in> {''motorcycle'', ''car''} \<longrightarrow>
               fuel_cost s' = or_default (a_fuel_cost (c_amounts cd)) 0)) \<and>
         (perform_update d u k ud = (d', Inr s') \<longrightarrow>
            s' \<in> set (sessions d') \<and>
            (transport_type p \<in> {''bicycle'', ''scooter''} \<longrightarrow> fuel_cost s' = 0) \<and>
            (transport_type p \<in> {''motorcycle'', ''car''} \<longrightarrow>
               (\<forall>v. a_fuel_cost (u_amounts ud) = Some v \<longrightarrow> fuel_cost s' = v)))"
proof (intro conjI impI)
  assume c: "perform_create d u cd = (d', Inr s')"
  then obtain d2 where s: "serializer_create d2 (Some p) u cd = Inr (d', s')"
    using perform_create_profile [OF assms] by blast
  show "s' \<in> set (sessions d')" using serializer_create_fuel(1) [OF s] .
  show "fuel_cost s' = 0" if "transport_type p \<in> {''bicycle'', ''scooter''}"
    using serializer_create_fuel(2) [OF s that] .
  show "fuel_cost s' = or_default (a_fuel_cost (c_amounts cd)) 0"
    if "transport_type p \<in> {''motorcycle'', ''car''}"
    using serializer_create_fuel(3) [OF s that] .
next
  assume c: "perform_update d u k ud = (d', Inr s')"
  then obtain inst where s: "serializer_update d (Some p) inst ud = Inr (d', s')"
    using perform_update_profile [OF assms] by blast
  show "s' \<in> set (sessions d')" using serializer_update_fuel(1) [OF s] .
  show "fuel_cost s' = 0" if "transport_type p \<in> {''bicycle'', ''scooter''}"
    using serializer_update_fuel(2) [OF s that] .
  show "\<forall>v. a_fuel_cost (u_amounts ud) = Some v \<longrightarrow> fuel_cost s' = v"
    if "transport_type p \<in> {''motorcycle'', ''car''}"
    using serializer_update_fuel(3) [OF s that] by (simp add: or_default_def)
qed



lemma perform_create_unfold:
  assumes "get_profile d u = Some p"
  shows "perform_create d u cd =
     (if \<not> is_pro p \<and> credits p < 10 then (d, Inl CreditsExhausted)
      else let d2 = (if is_pro p then d else put_profile d u (p\<lparr>credits := credits p - 10\<rparr>))
           in case serializer_create d2 (Some p) u cd of
                Inl e \<Rightarrow> (d2, Inl e)
              | Inr (d3, s) \<Rightarrow> (d3, Inr s))"
  using assms by (auto simp: perform_create_def Let_def split: sum.splits)

lemma perform_update_unfold:
  assumes "filter (\<lambda>r. user r = u \<and> pk r = Some k) (sessions d) = inst # rest"
  shows "perform_update d u k ud =
     (case serializer_update d (get_profile d u) inst ud of
        Inl e \<Rightarrow> (d, Inl e)
      | Inr (d', s) \<Rightarrow> (d', Inr s))"
  using assms by (simp add: perform_update_def)

lemma serializer_create_succeeds:
  assumes "rent_amount p = PyDecimal a" and "valid_date (c_date cd)"
  shows "\<exists>d' s'. serializer_create d (Some p) u cd = Inr (d', s')"
proof -
  let ?s = "new_instance u (cd\<lparr>c_amounts := force_fuel (Some p) (c_amounts cd)\<rparr>)"
  have t: "start_time ?s = Some (c_start_time cd)" "end_time ?s = Some (c_end_time cd)"
    and dt: "date ?s = c_date cd"
    by (simp_all add: new_instance_def Let_def)
  have "valid_date (date (set_duration ?s))"
    using assms(2) dt by (simp add: set_duration_inputs)
  then obtain r where "vehicle_rent (allocate_rent (Some p) d (set_duration ?s)) = PyDecimal r"
    using allocate_rent_decimal [OF assms(1)] by blast
  from save_succeeds [OF t this] show ?thesis
    by (simp add: serializer_create_def)
qed

lemma serializer_update_succeeds:
  assumes "rent_amount p = PyDecimal a" and "valid_date (date inst)" and "u_date ud = None"
    and "start_time inst \<noteq> None" and "end_time inst \<noteq> None"
  shows "\<exists>d' s'. serializer_update d (Some p) inst ud = Inr (d', s')"
proof -
  let ?s = "set_attrs (ud\<lparr>u_amounts := force_fuel (Some p) (u_amounts ud)\<rparr>) inst"
  have dt: "date ?s = date inst"
    using assms(3) by (simp add: set_attrs_def Let_def or_default_def)
  have "start_time ?s \<noteq> None" "end_time ?s \<noteq> None"
    using assms(4,5) by (simp_all add: set_attrs_def Let_def split: option.splits)
  then obtain st' en' where t: "start_time ?s = Some st'" "end_time ?s = Some en'"
    by blast
  have "valid_date (date (set_duration ?s))"
    using assms(2) dt by (simp add: set_duration_inputs)
  then obtain r where "vehicle_rent (allocate_rent (Some p) d (set_duration ?s)) = PyDecimal r"
    using allocate_rent_decimal [OF assms(1)] by blast
  from save_succeeds [OF t this] show ?thesis
    by (simp add: serializer_update_def)
qed

lemma perform_create_succeeds:
  assumes "get_profile d u = Some p" and "is_pro p \<or> 10 \<le> credits p"
    and "rent_amount p = PyDecimal a" and "valid_date (c_date cd)"
  shows "\<exists>d' s'. perform_create d u cd = (d', Inr s')"
proof -
  let ?d2 = "if is_pro p then d else put_profile d u (p\<lparr>credits := credits p - 10\<rparr>)"
  obtain d' s' where "serializer_create ?d2 (Some p) u cd = Inr (d', s')"
    using serializer_create_succeeds [OF assms(3,4)] by blast
  then show ?thesis
    using assms(2) by (auto simp: perform_create_unfold [OF assms(1)] Let_def)
qed

lemma example_facts:
  "get_profile bike_db 1 = Some bike_profile" "get_profile car_db 1 = Some test_profile"
  "get_profile bike_db1 1 = Some (bike_profile\<lparr>credits := 290\<rparr>)"
  "credits bike_profile = 300" "credits test_profile = 300"
  "\<not> is_pro bike_profile" "\<not> is_pro test_profile"
  "rent_amount bike_profile = PyDecimal 0" "rent_amount test_profile = PyDecimal 0"
  "transport_type bike_profile = ''bicycle''" "transport_type test_profile = ''car''"
  "valid_date (c_date bike_request)"
  "a_fuel_cost (c_amounts bike_request) = Some 10"
  "a_fuel_cost (u_amounts bike_patch) = Some 20" "u_date bike_patch = None"
  "filter (\<lambda>r. user r = 1 \<and> pk r = Some 1) (sessions bike_db1) = [bike_saved]"
  "valid_date (date bike_saved)"
  "start_time bike_saved = Some (18, 0, 0, 0)" "end_time bike_saved = Some (20, 0, 0, 0)"
  by (simp_all add: get_profile_def bike_db_def car_db_def bike_db1_def bike_profile_def
        test_profile_def bike_request_def bike_patch_def no_amounts_def bike_saved_def
        valid_date_def year_def month_def day_def monthrange_def mdays_def)

section \<open>The API\<close>

theorem api_fuel_cost_enforced_witness:
  "get_profile bike_db 1 = Some bike_profile \<and> transport_type bike_profile = ''bicycle'' \<and>
   a_fuel_cost (c_amounts bike_request) = Some 10 \<and>
   (\<exists>d' s'. perform_create bike_db 1 bike_request = (d', Inr s') \<and>
      s' \<in> set (sessions d') \<and> fuel_cost s' = 0) \<and>
   get_profile car_db 1 = Some test_profile \<and> transport_type test_profile = ''car'' \<and>
   (\<exists>d' s'. perform_create car_db 1 bike_request = (d', Inr s') \<and>
      s' \<in> set (sessions d') \<and> fuel_cost s' = 10) \<and>
   a_fuel_cost (u_amounts bike_patch) = Some 20 \<and>
   (\<exists>d' s'. perform_update bike_db1 1 1 bike_patch = (d', Inr s') \<and>
      s' \<in> set (sessions d') \<and> fuel_cost s' = 0)"
proof -
  obtain d1 s1 where c1: "perform_create bike_db 1 bike_request = (d1, Inr s1)"
    using perform_create_succeeds [OF example_facts(1) _ example_facts(8) example_facts(12)]
    by (auto simp: example_facts)
  obtain d2 s2 where c2: "perform_create car_db 1 bike_request = (d2, Inr s2)"
    using perform_create_succeeds [OF example_facts(2) _ example_facts(9) example_facts(12)]
    by (auto simp: example_facts)
  have "rent_amount (bike_profile\<lparr>credits := 290\<rparr>) = PyDecimal 0"
       "transport_type (bike_profile\<lparr>credits := 290\<rparr>) = ''bicycle''"
    by (simp_all add: example_facts)
  note p3 = this
  obtain d3 s3 where
    "serializer_update bike_db1 (Some (bike_profile\<lparr>credits := 290\<rparr>)) bike_saved bike_patch
       = Inr (d3, s3)"
    using serializer_update_succeeds [OF p3(1) example_facts(17) example_facts(15)]
    by (simp add: example_facts) blast
  then have c3: "perform_update bike_db1 1 1 bike_patch = (d3, Inr s3)"
    by (subst perform_update_unfold [OF example_facts(16)]) (simp only: example_facts(3), simp)
  have "s1 \<in> set (sessions d1) \<and> fuel_cost s1 = 0"
    using api_fuel_cost_enforced [OF example_facts(1), of bike_request d1 s1] c1
    by (simp add: example_facts)
  moreover have "s2 \<in> set (sessions d2) \<and> fuel_cost s2 = 10"
    using api_fuel_cost_enforced [OF example_facts(2), of bike_request d2 s2] c2
    by (simp add: example_facts or_default_def)
  moreover have "s3 \<in> set (sessions d3) \<and> fuel_cost s3 = 0"
    using api_fuel_cost_enforced [OF example_facts(3), where k = 1 and ud = bike_patch and d' = d3 and s' = s3] c3 p3
    by simp
  ultimately show ?thesis
    using c1 c2 c3 example_facts(1,2,10,11,13,14) by blast
qed




section \<open>Rounding and the duration\<close>

lemma digits_bounds:
  assumes "1 \<le> n" and "2 \<le> b"
  shows "1 \<le> digits b n \<and> b ^ (digits b n - 1) \<le> n \<and> n < b ^ digits b n"
  using assms
proof (induction b n rule: digits.induct)
  case (1 b n)
  show ?case
  proof (cases "n div b \<le> 0")
    case True
    then have "n < b" using "1.prems"
      using pos_imp_zdiv_pos_iff [of b n] by linarith
    moreover have "digits b n = 1"
      using True "1.prems" by (simp add: digits.simps [of b n] digits.simps [of b "n div b"])
    ultimately show ?thesis using "1.prems" by simp
  next
    case False
    then have p: "1 \<le> n div b" by simp
    have ih: "1 \<le> digits b (n div b) \<and> b ^ (digits b (n div b) - 1) \<le> n div b
        \<and> n div b < b ^ digits b (n div b)"
      using "1.IH" "1.prems" p by simp
    have d: "digits b n = Suc (digits b (n div b))"
      using "1.prems" by (simp add: digits.simps [of b n])
    obtain k where k: "digits b (n div b) = Suc k" using ih by (cases "digits b (n div b)") auto
    have bpos: "0 < b" using "1.prems" by simp
    have e: "n = (n div b) * b + n mod b" by simp
    have "b ^ k * b \<le> (n div b) * b"
      using ih k bpos by (intro mult_right_mono) simp_all
    also have "\<dots> \<le> n"
      using pos_mod_sign [OF bpos, of n] e by linarith
    finally have lo: "b ^ Suc k \<le> n" by (simp add: mult.commute)
    have "n div b + 1 \<le> b ^ Suc k" using ih k by simp
    then have "(n div b + 1) * b \<le> b ^ Suc k * b"
      using bpos by (intro mult_right_mono) simp_all
    moreover have "n < (n div b + 1) * b"
    proof -
      have "n < n div b * b + b" using pos_mod_bound [OF bpos, of n] e by linarith
      then show ?thesis by (simp add: distrib_right)
    qed
    ultimately have hi: "n < b ^ Suc (Suc k)" by (simp add: mult.commute)
    show ?thesis using lo hi d k by simp
  qed
qed

lemma ilog_le:
  assumes "0 < q" and "2 \<le> b"
  shows "of_int b powi ilog b q \<le> q"
proof (cases "1 \<le> q")
  case True
  then have n: "1 \<le> \<lfloor>q\<rfloor>" by simp
  let ?D = "digits b \<lfloor>q\<rfloor>"
  have D: "1 \<le> ?D" "b ^ (?D - 1) \<le> \<lfloor>q\<rfloor>"
    using digits_bounds [OF n assms(2)] by simp_all
  have "ilog b q = int (?D - 1)" using True D(1) by (simp add: ilog_def)
  then have "of_int b powi ilog b q = (of_int (b ^ (?D - 1)) :: rat)"
    by (simp add: power_int_def)
  also have "\<dots> \<le> of_int \<lfloor>q\<rfloor>" using D(2) by (simp only: of_int_le_iff)
  also have "\<dots> \<le> q" by simp
  finally show ?thesis .
next
  case False
  then have q1: "q < 1" by simp
  have "1 < 1 / q" using assms(1) q1 by simp
  then have "1 < \<lceil>1 / q\<rceil>" by (simp add: less_ceiling_iff)
  then have m: "1 \<le> \<lceil>1 / q\<rceil> - 1" by simp
  let ?D = "digits b (\<lceil>1 / q\<rceil> - 1)"
  have D: "1 \<le> ?D" "\<lceil>1 / q\<rceil> - 1 < b ^ ?D"
    using digits_bounds [OF m assms(2)] by simp_all
  have bpos: "(0::rat) < of_int b ^ ?D" using assms(2) by simp
  have "ilog b q = - int ?D" using False by (simp add: ilog_def)
  then have "of_int b powi ilog b q = (1 / of_int b ^ ?D :: rat)"
    using D(1) by (simp add: power_int_def field_simps)
  moreover have "1 / q \<le> of_int b ^ ?D"
  proof -
    have "1 / q \<le> of_int \<lceil>1 / q\<rceil>" by simp
    also have "\<dots> \<le> (of_int (b ^ ?D) :: rat)" using D(2) by (simp only: of_int_le_iff)
    finally show ?thesis by simp
  qed
  then have "1 / of_int b ^ ?D \<le> q"
    using assms(1) bpos by (simp add: field_simps)
  ultimately show ?thesis by simp
qed

lemma round_half_even_err: "\<bar>of_int (round_half_even y) - y\<bar> \<le> 1 / 2"
proof -
  have "of_int \<lfloor>y\<rfloor> \<le> y" "y < of_int \<lfloor>y\<rfloor> + 1" by linarith+
  then show ?thesis
    by (auto simp: round_half_even_def Let_def)
qed

lemma round_half_even_of_int [simp]: "round_half_even (of_int k) = k"
  by (simp add: round_half_even_def)

lemma round_sig_err:
  assumes "0 \<le> q" and "2 \<le> b"
  shows "\<bar>round_sig b p q - q\<bar> \<le> q * (of_int b powi (1 - int p)) / 2"
proof (cases "q = 0")
  case True
  then show ?thesis by (simp add: round_sig_def)
next
  case False
  then have qpos: "0 < q" using assms(1) by simp
  define B :: rat where "B = of_int b"
  define u where "u = B powi (ilog b q - int p + 1)"
  define k :: rat where "k = of_int (round_half_even (q / u))"
  have B: "0 < B" using assms(2) by (simp add: B_def)
  have u: "0 < u" using B by (simp add: u_def)
  have r: "round_sig b p q = k * u"
    using False qpos by (simp add: round_sig_def Let_def k_def u_def B_def)
  have "k * u - q = (k - q / u) * u"
    using u by (simp add: left_diff_distrib)
  then have "\<bar>round_sig b p q - q\<bar> = \<bar>k - q / u\<bar> * u"
    using u by (simp add: r abs_mult)
  also have "\<dots> \<le> (1 / 2) * u"
    using round_half_even_err [of "q / u"] u unfolding k_def by (intro mult_right_mono) simp_all
  also have "u = B powi ilog b q * B powi (1 - int p)"
    using B unfolding u_def by (simp add: power_int_add [symmetric] algebra_simps)
  also have "(1 / 2) * (B powi ilog b q * B powi (1 - int p)) \<le> (1 / 2) * (q * B powi (1 - int p))"
  proof -
    have "0 \<le> B powi (1 - int p)" using B by simp
    then have "B powi ilog b q * B powi (1 - int p) \<le> q * B powi (1 - int p)"
      using ilog_le [OF qpos assms(2)] unfolding B_def by (intro mult_right_mono)
    then show ?thesis by simp
  qed
  finally show ?thesis by (simp add: B_def)
qed

lemma fl_err:
  assumes "0 \<le> q"
  shows "\<bar>fl q - q\<bar> \<le> q / 2 ^ 53"
proof -
  have "(of_int 2 :: rat) powi (1 - int 53) = 1 / 2 ^ 52"
    by (simp add: power_int_def power_divide)
  then have "\<bar>fl q - q\<bar> \<le> q * (1 / 2 ^ 52) / 2"
    using round_sig_err [OF assms, of 2 53] by (simp only: fl_def)
  then show ?thesis by simp
qed

lemma fl_zero [simp]: "fl 0 = 0"
  by (simp add: fl_def round_sig_def)

lemma ctx_zero [simp]: "ctx 0 = 0"
  by (simp add: ctx_def round_sig_def)

lemma time_us_bounds:
  assumes "valid_time t"
  shows "0 \<le> time_us t" and "time_us t < 86400000000"
  using assms by (auto simp: valid_time_def time_us_def split: prod.splits)

lemma time_less_iff:
  assumes "valid_time a" and "valid_time b"
  shows "a < b \<longleftrightarrow> time_us a < time_us b"
proof -
  obtain h1 m1 s1 u1 where a: "a = (h1, m1, s1, u1)" by (cases a)
  obtain h2 m2 s2 u2 where b: "b = (h2, m2, s2, u2)" by (cases b)
  have va: "m1 < 60" "s1 < 60" "u1 < 1000000" using assms(1) by (simp_all add: valid_time_def a)
  have vb: "m2 < 60" "s2 < 60" "u2 < 1000000" using assms(2) by (simp_all add: valid_time_def b)
  show ?thesis
    unfolding a b time_us_def using va vb by (simp add: less_prod_def) linarith
qed

lemma calc_duration_err:
  assumes "valid_time st" and "valid_time en"
  shows "\<bar>calc_duration st en - spec_duration_hours st en\<bar> \<le> 1 / 10 ^ 14"
    and "0 \<le> spec_duration_hours st en" and "spec_duration_hours st en < 24"
proof -
  define us where "us = (if en < st then time_us en + 86400 * 1000000 else time_us en) - time_us st"
  have lt: "en < st \<longleftrightarrow> time_us en < time_us st" by (rule time_less_iff [OF assms(2,1)])
  have us: "0 \<le> us" "us < 86400000000"
    using time_us_bounds [OF assms(1)] time_us_bounds [OF assms(2)] lt
    by (auto simp: us_def)
  define x :: rat where "x = of_int us / 10 ^ 6"
  have x: "0 \<le> x" "x < 86400"
    using us by (simp_all add: x_def)
  have spec: "spec_duration_hours st en = x / 3600"
    by (simp add: spec_duration_hours_def us_def x_def not_less [symmetric])
  show "0 \<le> spec_duration_hours st en" "spec_duration_hours st en < 24"
    using x by (simp_all add: spec)
  define t where "t = fl x"
  have c: "(2::rat) ^ 53 = 9007199254740992" by simp
  have t: "\<bar>t - x\<bar> \<le> x / 9007199254740992"
    unfolding t_def using fl_err [OF x(1)] by (simp only: c)
  then have t0: "0 \<le> t" using x(1) by linarith
  define h where "h = fl (t / 3600)"
  have "0 \<le> t / 3600" using t0 by simp
  then have h: "\<bar>h - t / 3600\<bar> \<le> (t / 3600) / 9007199254740992"
    unfolding h_def using fl_err [of "t / 3600"] by (simp only: c)
  have ch: "calc_duration st en = h"
    by (simp add: calc_duration_def Let_def total_seconds_def h_def t_def x_def us_def)
  have "\<bar>h - x / 3600\<bar> \<le> 1 / 100000000000000"
    using t h x by linarith
  then have "\<bar>h - x / 3600\<bar> \<le> 1 / 10 ^ 14" by simp
  then show "\<bar>calc_duration st en - spec_duration_hours st en\<bar> \<le> 1 / 10 ^ 14"
    by (simp only: spec ch)
qed

lemma night_duration: "calc_duration (23, 0, 0, 0) (1, 0, 0, 0) = 2"
  by code_simp

lemma night_spec: "spec_duration_hours (23, 0, 0, 0) (1, 0, 0, 0) = 2"
  by code_simp

text \<open>
  C3. For valid start and end times the duration of a saved session is the float result of
  the code, and it differs from the exact duration (end minus start in hours, with 24 hours
  added to an end that is earlier than the start) by at most \<open>10^-14\<close> hours, far below
  half a unit of the second decimal place; the exact duration lies in [0, 24). From 23:00 to
  01:00 the duration is exactly 2.
\<close>

theorem duration_hours_accurate:
  assumes "save d po s = Inr (d', s')"
    and "start_time s = Some st" and "end_time s = Some en"
    and "valid_time st" and "valid_time en"
  shows "duration_hours s' = Some (calc_duration st en) \<and>
         \<bar>calc_duration st en - spec_duration_hours st en\<bar> \<le> 1 / 10 ^ 14 \<and>
         0 \<le> spec_duration_hours st en \<and> spec_duration_hours st en < 24"
proof -
  obtain s1 where d: "derive_fields po d s = Inr s1" and w: "write_row d s1 = Inr (d', s')"
    using assms(1) by (rule save_derive)
  obtain k where eq: "s' = s1\<lparr>pk := k\<rparr>" using write_row_fields(1) [OF w] by blast
  have "duration_hours s' = Some (calc_duration st en)"
    unfolding eq using derive_fields_times(3) [OF d] set_duration_times(3) [OF assms(2,3)]
    by simp
  then show ?thesis using calc_duration_err [OF assms(4,5)] by simp
qed

lemma night_facts:
  "start_time night_session = Some (23, 0, 0, 0)" "end_time night_session = Some (1, 0, 0, 0)"
  "valid_time (23, 0, 0, 0)" "valid_time (1, 0, 0, 0)"
  "valid_date (date (set_duration night_session))"
  "rent_amount test_profile = PyDecimal 0"
  by (simp_all add: night_session_def test_session_def valid_time_def valid_date_def
        set_duration_inputs year_def month_def day_def monthrange_def mdays_def
        test_profile_def)

theorem duration_hours_accurate_witness:
  "valid_time (23, 0, 0, 0) \<and> valid_time (1, 0, 0, 0) \<and>
   start_time night_session = Some (23, 0, 0, 0) \<and> end_time night_session = Some (1, 0, 0, 0) \<and>
   spec_duration_hours (23, 0, 0, 0) (1, 0, 0, 0) = 2 \<and>
   (\<exists>d' s'. save empty_db (Some test_profile) night_session = Inr (d', s') \<and>
      duration_hours s' = Some 2)"
proof -
  obtain r where
    "vehicle_rent (allocate_rent (Some test_profile) empty_db (set_duration night_session))
       = PyDecimal r"
    using allocate_rent_decimal [OF night_facts(6) night_facts(5)] by blast
  then obtain d' s' where s: "save empty_db (Some test_profile) night_session = Inr (d', s')"
    using save_succeeds [OF night_facts(1,2)] by blast
  have "duration_hours s' = Some 2"
    using duration_hours_accurate [OF s night_facts(1,2,3,4)] by (simp only: night_duration)
  then show ?thesis using s night_facts(1,2,3,4) night_spec by blast
qed

section \<open>Rent allocation\<close>




lemma derive_fields_rent:
  assumes "derive_fields po d s = Inr s'"
  shows "vehicle_rent s' = vehicle_rent (allocate_rent po d (set_duration s))"
  using assms by (auto simp: derive_fields_def Let_def split: sum.splits)
















lemma allocate_rent_None [simp]: "allocate_rent None d s = s"
  by (simp add: allocate_rent_def)

lemma save_None_rent:
  assumes "save d None s = Inr (d', s')"
  shows "vehicle_rent s' = vehicle_rent s"
proof -
  obtain s1 where dv: "derive_fields None d s = Inr s1" and w: "write_row d s1 = Inr (d', s')"
    using assms by (rule save_derive)
  obtain k where eq: "s' = s1\<lparr>pk := k\<rparr>" using write_row_fields(1) [OF w] by blast
  show ?thesis
    unfolding eq using derive_fields_rent [OF dv] by (simp add: set_duration_inputs)
qed

lemma save_None_float:
  assumes "vehicle_rent s = PyFloat x"
  shows "save d None s = Inl TypeError"
  using assms
  by (simp add: save_def derive_fields_def Let_def calc_total_costs_def set_duration_inputs)

text \<open>
  C5. When the profile cannot be resolved the rent is not set to zero: a rent of 50 supplied
  by the caller is kept as the allocated rent, and with the model default (the float 0.0)
  the save raises TypeError in the cost sum instead of completing.
\<close>

theorem unresolved_profile_keeps_rent:
  "vehicle_rent supplied_rent_session = PyDecimal 50 \<and>
   (\<exists>d' s'. save empty_db None supplied_rent_session = Inr (d', s') \<and>
      vehicle_rent s' = PyDecimal 50) \<and>
   vehicle_rent test_session = PyFloat 0 \<and>
   save empty_db None test_session = Inl TypeError"
proof -
  have f: "vehicle_rent supplied_rent_session = PyDecimal 50"
    "start_time supplied_rent_session = Some (18, 0, 0, 0)"
    "end_time supplied_rent_session = Some (20, 0, 0, 0)"
    "vehicle_rent test_session = PyFloat 0"
    by (simp_all add: supplied_rent_session_def test_session_def)
  have "vehicle_rent (allocate_rent None empty_db (set_duration supplied_rent_session))
          = PyDecimal 50"
    using f(1) by (simp add: set_duration_inputs)
  then obtain d' s' where s: "save empty_db None supplied_rent_session = Inr (d', s')"
    using save_succeeds [OF f(2,3)] by blast
  then have "vehicle_rent s' = PyDecimal 50"
    using save_None_rent f(1) by simp
  then show ?thesis
    using s f(1,4) save_None_float [OF f(4)] by blast
qed

section \<open>Properties of the dashboard\<close>

lemma pow10_diff: "(10::rat) powi (int a - int b) = 10 ^ a / 10 ^ b"
proof -
  have "(10::rat) powi (int a - int b) = 10 powi (int a) / 10 powi (int b)"
    by (rule power_int_diff) simp
  then show ?thesis by (simp only: power_int_of_nat)
qed

lemma ctx_exact:
  assumes q: "q = of_int k / 10 ^ n" and k: "\<bar>k\<bar> < 10 ^ 28"
  shows "ctx q = q"
proof (cases "q = 0")
  case True
  then show ?thesis by simp
next
  case False
  define e where "e = ilog 10 \<bar>q\<bar>"
  define u :: rat where "u = 10 powi (e - 27)"
  have apos: "0 < \<bar>q\<bar>" using False by simp
  have lo: "(10::rat) powi e \<le> \<bar>q\<bar>"
    using ilog_le [OF apos, of 10] by (simp add: e_def)
  have "\<bar>q\<bar> = of_int \<bar>k\<bar> / 10 ^ n" by (simp add: q)
  also have "\<dots> < 10 ^ 28 / 10 ^ n"
  proof -
    have "(of_int \<bar>k\<bar> :: rat) < of_int (10 ^ 28)" using k by (simp only: of_int_less_iff)
    then have "(of_int \<bar>k\<bar> :: rat) < 10 ^ 28" by simp
    then show ?thesis by (rule divide_strict_right_mono) simp
  qed
  also have "\<dots> = (10::rat) powi (int 28 - int n)"
    by (simp only: pow10_diff)
  finally have hi: "\<bar>q\<bar> < (10::rat) powi (int 28 - int n)" .
  have "e < int 28 - int n"
  proof (rule ccontr)
    assume "\<not> e < int 28 - int n"
    then have "(10::rat) powi (int 28 - int n) \<le> 10 powi e"
      by (intro power_int_increasing) simp_all
    then show False using lo hi by linarith
  qed
  then have "0 \<le> 27 - e - int n" by simp
  then obtain m :: nat where m: "27 - e - int n = int m"
    using zero_le_imp_eq_int by blast
  have upos: "0 < u" by (simp add: u_def)
  have e27: "e - 27 = - int m - int n" using m by simp
  have "u * 10 ^ m * 10 ^ n = 1"
  proof -
    have "u = 10 powi (- (int m + int n))" unfolding u_def e27 by simp
    also have "\<dots> = inverse (10 powi (int m + int n))" by (rule power_int_minus)
    also have "\<dots> = inverse (10 ^ (m + n))" by (simp only: of_nat_add [symmetric] power_int_of_nat)
    finally have "u = inverse (10 ^ (m + n))" .
    then have "u * 10 ^ (m + n) = 1" by simp
    then show ?thesis by (simp only: power_add mult.assoc)
  qed
  then have "q = of_int (k * 10 ^ m) * u"
    by (simp add: q field_simps)
  then have qu: "q / u = of_int (k * 10 ^ m)" using upos by simp
  then have r: "round_half_even (q / u) = k * 10 ^ m" by (simp only: round_half_even_of_int)
  have "ctx q = of_int (round_half_even (q / u)) * u"
    using False by (simp add: ctx_def round_sig_def Let_def u_def e_def algebra_simps)
  also have "\<dots> = (q / u) * u" by (simp only: qu round_half_even_of_int)
  also have "\<dots> = q" using upos by simp
  finally show ?thesis .
qed


lemma column_sum:
  assumes "\<forall>r \<in> set qs. column_10_2 (f r)"
  shows "\<exists>k. sum_list (map f qs) = of_int k / 10 ^ 2 \<and> \<bar>k\<bar> \<le> int (length qs) * 10 ^ 10"
  using assms
proof (induction qs)
  case Nil
  then show ?case by simp
next
  case (Cons r qs)
  then obtain k where k: "sum_list (map f qs) = of_int k / 10 ^ 2"
    "\<bar>k\<bar> \<le> int (length qs) * 10 ^ 10" by auto
  define j where "j = \<lfloor>f r * 100\<rfloor>"
  have c: "of_int j = f r * 100" "\<bar>f r\<bar> < 10 ^ 8"
    using Cons.prems by (simp_all add: column_10_2_def j_def)
  have "\<bar>(of_int j :: rat)\<bar> < of_int (10 ^ 10)"
    using c by (simp add: abs_mult)
  then have j: "\<bar>j\<bar> < 10 ^ 10" by (simp only: of_int_abs [symmetric] of_int_less_iff)
  have "sum_list (map f (r # qs)) = of_int (j + k) / 10 ^ 2"
    using c(1) k(1) by (simp add: field_simps)
  moreover have "\<bar>j + k\<bar> \<le> int (length (r # qs)) * 10 ^ 10"
    using j k(2) by (simp add: algebra_simps)
  ultimately show ?case by blast
qed

lemma or_zero_Sum: "or_zero (Sum f qs) = sum_list (map f qs)"
  by (simp add: or_zero_def Sum_def)

lemma dec_add_exact:
  assumes "a = of_int i / 10 ^ 2" and "b = of_int j / 10 ^ 2" and "\<bar>i\<bar> + \<bar>j\<bar> < 10 ^ 28"
  shows "dec_add a b = a + b" and "a + b = of_int (i + j) / 10 ^ 2"
proof -
  show s: "a + b = of_int (i + j) / 10 ^ 2"
    by (simp add: assms(1,2) add_divide_distrib)
  have "\<bar>i + j\<bar> < 10 ^ 28" using assms(3) by linarith
  then show "dec_add a b = a + b"
    unfolding dec_add_def using s by (intro ctx_exact)
qed

lemma five_sums_exact:
  assumes c: "\<forall>r \<in> set qs. cost_columns r" and n: "length qs \<le> 10 ^ 15"
  shows "dec_add (dec_add (dec_add (dec_add
           (sum_list (map fuel_cost qs))
           (sum_list (map (\<lambda>r. num_value (vehicle_rent r)) qs)))
           (sum_list (map depreciation_cost qs)))
           (sum_list (map other_expenses qs)))
           (sum_list (map platform_fees qs)) =
         sum_list (map (\<lambda>r. fuel_cost r + num_value (vehicle_rent r) + depreciation_cost r
                             + other_expenses r + platform_fees r) qs)"
proof -
  have b: "int (length qs) * 10 ^ 10 \<le> 10 ^ 25" using n by simp
  obtain k1 where k1: "sum_list (map fuel_cost qs) = of_int k1 / 10 ^ 2" "\<bar>k1\<bar> \<le> 10 ^ 25"
    using column_sum [of qs fuel_cost] c b unfolding cost_columns_def by fastforce
  obtain k2 where k2: "sum_list (map (\<lambda>r. num_value (vehicle_rent r)) qs) = of_int k2 / 10 ^ 2"
    "\<bar>k2\<bar> \<le> 10 ^ 25"
    using column_sum [of qs "\<lambda>r. num_value (vehicle_rent r)"] c b unfolding cost_columns_def
    by fastforce
  obtain k3 where k3: "sum_list (map depreciation_cost qs) = of_int k3 / 10 ^ 2" "\<bar>k3\<bar> \<le> 10 ^ 25"
    using column_sum [of qs depreciation_cost] c b unfolding cost_columns_def by fastforce
  obtain k4 where k4: "sum_list (map other_expenses qs) = of_int k4 / 10 ^ 2" "\<bar>k4\<bar> \<le> 10 ^ 25"
    using column_sum [of qs other_expenses] c b unfolding cost_columns_def by fastforce
  obtain k5 where k5: "sum_list (map platform_fees qs) = of_int k5 / 10 ^ 2" "\<bar>k5\<bar> \<le> 10 ^ 25"
    using column_sum [of qs platform_fees] c b unfolding cost_columns_def by fastforce
  note a1 = dec_add_exact [OF k1(1) k2(1)]
  have s1: "\<bar>k1\<bar> + \<bar>k2\<bar> < 10 ^ 28" using k1(2) k2(2) by simp
  note a2 = dec_add_exact [OF a1(2) [OF s1] k3(1)]
  have s2: "\<bar>k1 + k2\<bar> + \<bar>k3\<bar> < 10 ^ 28" using k1(2) k2(2) k3(2) by simp
  note a3 = dec_add_exact [OF a2(2) [OF s2] k4(1)]
  have s3: "\<bar>k1 + k2 + k3\<bar> + \<bar>k4\<bar> < 10 ^ 28" using k1(2) k2(2) k3(2) k4(2) by simp
  note a4 = dec_add_exact [OF a3(2) [OF s3] k5(1)]
  have s4: "\<bar>k1 + k2 + k3 + k4\<bar> + \<bar>k5\<bar> < 10 ^ 28"
    using k1(2) k2(2) k3(2) k4(2) k5(2) by simp
  have "dec_add (dec_add (dec_add (dec_add
           (sum_list (map fuel_cost qs))
           (sum_list (map (\<lambda>r. num_value (vehicle_rent r)) qs)))
           (sum_list (map depreciation_cost qs)))
           (sum_list (map other_expenses qs)))
           (sum_list (map platform_fees qs)) =
        sum_list (map fuel_cost qs) + sum_list (map (\<lambda>r. num_value (vehicle_rent r)) qs)
          + sum_list (map depreciation_cost qs) + sum_list (map other_expenses qs)
          + sum_list (map platform_fees qs)"
    by (simp only: a1(1) [OF s1] a2(1) [OF s2] a3(1) [OF s3] a4(1) [OF s4])
  then show ?thesis by (simp only: sum_list_addf)
qed

text \<open>
  C7. The report's total costs are the decimal sum of five column sums over the sessions of
  the period: fuel cost, vehicle rent, depreciation cost, other expenses and platform fees;
  the application fee does not occur in it. When the five cost columns of the selected
  sessions hold two-decimal column values and there are at most \<open>10^15\<close> sessions, no
  addition rounds and the total is exactly the sum over the sessions of the five components.
\<close>

theorem dashboard_total_costs:
  "r_total_costs (dashboard_get d u period today) =
     (let qs = period_sessions d u period today
      in dec_add (dec_add (dec_add (dec_add
           (sum_list (map fuel_cost qs))
           (sum_list (map (\<lambda>r. num_value (vehicle_rent r)) qs)))
           (sum_list (map depreciation_cost qs)))
           (sum_list (map other_expenses qs)))
           (sum_list (map platform_fees qs))) \<and>
   ((\<forall>r \<in> set (period_sessions d u period today). cost_columns r) \<and>
    length (period_sessions d u period today) \<le> 10 ^ 15 \<longrightarrow>
    r_total_costs (dashboard_get d u period today) =
      sum_list (map (\<lambda>r. fuel_cost r + num_value (vehicle_rent r) + depreciation_cost r
                          + other_expenses r + platform_fees r)
                 (period_sessions d u period today)))"
proof -
  have e: "r_total_costs (dashboard_get d u period today) =
     (let qs = period_sessions d u period today
      in dec_add (dec_add (dec_add (dec_add
           (sum_list (map fuel_cost qs))
           (sum_list (map (\<lambda>r. num_value (vehicle_rent r)) qs)))
           (sum_list (map depreciation_cost qs)))
           (sum_list (map other_expenses qs)))
           (sum_list (map platform_fees qs)))"
    by (simp add: dashboard_get_def Let_def or_zero_Sum)
  show ?thesis
  proof (intro conjI impI)
    show "r_total_costs (dashboard_get d u period today) =
     (let qs = period_sessions d u period today
      in dec_add (dec_add (dec_add (dec_add
           (sum_list (map fuel_cost qs))
           (sum_list (map (\<lambda>r. num_value (vehicle_rent r)) qs)))
           (sum_list (map depreciation_cost qs)))
           (sum_list (map other_expenses qs)))
           (sum_list (map platform_fees qs)))" by (rule e)
  next
    assume a: "(\<forall>r \<in> set (period_sessions d u period today). cost_columns r) \<and>
      length (period_sessions d u period today) \<le> 10 ^ 15"
    show "r_total_costs (dashboard_get d u period today) =
      sum_list (map (\<lambda>r. fuel_cost r + num_value (vehicle_rent r) + depreciation_cost r
                          + other_expenses r + platform_fees r)
                 (period_sessions d u period today))"
      unfolding e Let_def using five_sums_exact a by blast
  qed
qed








lemma dash_period:
  "period_sessions dash_db 1 ''week'' (2024, 3, 17) = sessions dash_db"
  "period_sessions dash_db 1 ''today'' (2024, 3, 17) = []"
  by code_simp+

lemma dash_columns: "\<forall>r \<in> set (sessions dash_db). cost_columns r"
  by (simp add: dash_db_def cost_columns_def column_10_2_def car_saved_def bike_saved_def
        test_saved_def test_session_def)

lemma dash_total:
  "sum_list (map (\<lambda>r. fuel_cost r + num_value (vehicle_rent r) + depreciation_cost r
                      + other_expenses r + platform_fees r) (sessions dash_db)) = 17"
  by (simp add: dash_db_def car_saved_def bike_saved_def test_saved_def test_session_def)

theorem dashboard_total_costs_witness:
  "list_all cost_columns (period_sessions dash_db 1 ''week'' (2024, 3, 17)) \<and>
   length (period_sessions dash_db 1 ''week'' (2024, 3, 17)) \<le> 10 ^ 15 \<and>
   r_total_costs (dashboard_get dash_db 1 ''week'' (2024, 3, 17)) = 17 \<and>
   r_total_costs (dashboard_get dash_db 1 ''today'' (2024, 3, 17)) = 0"
proof -
  have l: "length (sessions dash_db) \<le> 10 ^ 15" by (simp add: dash_db_def)
  have c: "(\<forall>r \<in> set (period_sessions dash_db 1 ''week'' (2024, 3, 17)). cost_columns r) \<and>
      length (period_sessions dash_db 1 ''week'' (2024, 3, 17)) \<le> 10 ^ 15"
    unfolding dash_period using dash_columns l by blast
  have "r_total_costs (dashboard_get dash_db 1 ''week'' (2024, 3, 17)) =
      sum_list (map (\<lambda>r. fuel_cost r + num_value (vehicle_rent r) + depreciation_cost r
                          + other_expenses r + platform_fees r)
                 (period_sessions dash_db 1 ''week'' (2024, 3, 17)))"
    using dashboard_total_costs [of dash_db 1 "''week''" "(2024, 3, 17)"] c by blast
  then have w: "r_total_costs (dashboard_get dash_db 1 ''week'' (2024, 3, 17)) = 17"
    unfolding dash_period dash_total .
  have "(\<forall>r \<in> set (period_sessions dash_db 1 ''today'' (2024, 3, 17)). cost_columns r) \<and>
      length (period_sessions dash_db 1 ''today'' (2024, 3, 17)) \<le> 10 ^ 15"
    unfolding dash_period by simp
  then have "r_total_costs (dashboard_get dash_db 1 ''today'' (2024, 3, 17)) =
      sum_list (map (\<lambda>r. fuel_cost r + num_value (vehicle_rent r) + depreciation_cost r
                          + other_expenses r + platform_fees r)
                 (period_sessions dash_db 1 ''today'' (2024, 3, 17)))"
    using dashboard_total_costs [of dash_db 1 "''today''" "(2024, 3, 17)"] by blast
  then have t: "r_total_costs (dashboard_get dash_db 1 ''today'' (2024, 3, 17)) = 0"
    unfolding dash_period by simp
  show ?thesis using c w t by (simp only: list_all_iff) blast
qed



end
